theory Spec2Isabelle
  imports Complex_Main
begin

section \<open>Values crossing the remote boundary\<close>

text \<open>
  The hooks and the auth provider are asynchronous: each \<open>await\<close> hands control to the
  remote service and resumes with whatever the service answered. The model makes that
  answer an explicit argument of the code that runs after the \<open>await\<close>.

  A JavaScript \<open>number\<close> is modelled as a rational; \<open>NaN\<close> and the infinities do not occur
  in rows decoded from JSON. A column that is \<open>null\<close> or absent is \<open>None\<close>.
\<close>

type_synonym number = rat

text \<open>A thrown value: an \<open>Error\<close> instance with its message, or any other value.\<close>

datatype thrown = ErrorObj string | NonError

text \<open>The \<open>error\<close> member of a remote answer; only its \<open>message\<close> is ever read.\<close>

datatype remote_error = RemoteError (message: string)

text \<open>
  An awaited remote call either resolves to \<open>{ data, error }\<close> (each possibly \<open>null\<close>)
  or rejects with a thrown value.
\<close>

datatype 'a response = Resolved "'a option" "remote_error option" | Rejected thrown

text \<open>\<open>x || 0\<close> on a numeric column: \<open>null\<close>, \<open>undefined\<close> and \<open>0\<close> all give \<open>0\<close>.\<close>

definition or0 :: "number option \<Rightarrow> number" where
  "or0 v = (case v of None \<Rightarrow> 0 | Some x \<Rightarrow> (if x = 0 then 0 else x))"

text \<open>\<open>s || d\<close> on a string: the empty string is falsy.\<close>

definition or_str :: "string \<Rightarrow> string \<Rightarrow> string" where
  "or_str s d = (if s = [] then d else s)"

text \<open>
  \<open>user?.id\<close> as the guards \<open>if (!user?.id)\<close> read it: no user, or a user whose id is
  the empty string, is no identity.
\<close>

definition usable_id :: "string option \<Rightarrow> string option" where
  "usable_id uid = (case uid of None \<Rightarrow> None | Some i \<Rightarrow> (if i = [] then None else Some i))"

text \<open>
  \<open>xs.slice(0, e)\<close> for an integral \<open>e\<close>: a negative end counts from the end of the
  array, and both ends are clamped to the array.
\<close>

definition slice0 :: "'a list \<Rightarrow> int \<Rightarrow> 'a list" where
  "slice0 xs e = (if e < 0 then take (nat (int (length xs) + e)) xs else take (nat e) xs)"


section \<open>The LiveQuery hooks\<close>

text \<open>
  The three hooks expose \<open>{ stats | activities | challenges, loading, error }\<close>; the
  first component is the field \<open>data\<close> here. Two further fields record what the
  effect has outstanding at the remote service: the realtime channel it subscribed
  (\<open>channel\<close>, the user id of its filter, \<open>None\<close> once unsubscribed) and the fetches it
  awaits (\<open>inflight\<close>, the user id each was issued for).
\<close>

record 'd live_query =
  data :: 'd
  loading :: bool
  error :: "string option"
  channel :: "string option"
  inflight :: "string list"

text \<open>
  What can happen to a mounted hook: the effect body runs for the current \<open>user?.id\<close>;
  the cleanup returned by the effect runs (identity change or unmount); an awaited
  fetch completes with an answer \<open>'f\<close>; the channel delivers a change with payload
  \<open>'p\<close>. On an identity change React runs \<open>Cleanup\<close> and then \<open>Effect\<close>.
\<close>

datatype ('f, 'p) hook_event =
    Effect "string option"
  | Cleanup
  | FetchDone string 'f
  | Change string 'p


subsection \<open>useUserStats\<close>

record stats_row =
  row_portfolio_views :: "number option"
  row_followers :: "number option"
  row_rating :: "number option"
  row_loyalty_points :: "number option"
  row_projects_completed :: "number option"

record UserStats =
  portfolio_views :: number
  followers :: number
  rating :: number
  loyalty_points :: number
  projects_completed :: number

definition zero_stats :: UserStats where
  "zero_stats = \<lparr>portfolio_views = 0, followers = 0, rating = 0,
                  loyalty_points = 0, projects_completed = 0\<rparr>"

text \<open>The object literal built from a row, in the fetch and in the change handler.\<close>

definition stats_of_row :: "stats_row \<Rightarrow> UserStats" where
  "stats_of_row r = \<lparr>portfolio_views = or0 (row_portfolio_views r),
                      followers = or0 (row_followers r),
                      rating = or0 (row_rating r),
                      loyalty_points = or0 (row_loyalty_points r),
                      projects_completed = or0 (row_projects_completed r)\<rparr>"

type_synonym stats_hook = "UserStats option live_query"

definition stats_initial :: stats_hook where
  "stats_initial = \<lparr>data = None, loading = True, error = None,
                     channel = None, inflight = []\<rparr>"

text \<open>The body of \<open>fetchUserStats\<close> after its \<open>await\<close>, \<open>finally\<close> included.\<close>

fun fetchUserStats :: "stats_hook \<Rightarrow> stats_row response \<Rightarrow> stats_hook" where
  "fetchUserStats s (Resolved d (Some e)) =
     s\<lparr>data := Some zero_stats, error := None, loading := False\<rparr>"
| "fetchUserStats s (Resolved (Some row) None) =
     s\<lparr>data := Some (stats_of_row row), loading := False\<rparr>"
| "fetchUserStats s (Resolved None None) = s\<lparr>loading := False\<rparr>"
| "fetchUserStats s (Rejected t) = s\<lparr>data := Some zero_stats, loading := False\<rparr>"

text \<open>The \<open>postgres_changes\<close> callback; the argument is \<open>payload.new\<close>.\<close>

fun stats_on_change :: "stats_hook \<Rightarrow> stats_row option \<Rightarrow> stats_hook" where
  "stats_on_change s (Some row) = s\<lparr>data := Some (stats_of_row row)\<rparr>"
| "stats_on_change s None = s"

text \<open>
  One event of the hook. A fetch can only complete if it was issued; the channel only
  delivers to a callback that is still subscribed. Nothing else guards a completion.
\<close>

fun stats_step :: "stats_hook \<Rightarrow> (stats_row response, stats_row option) hook_event \<Rightarrow> stats_hook" where
  "stats_step s (Effect uid) =
     (case usable_id uid of
        None \<Rightarrow> s\<lparr>loading := False, data := Some zero_stats\<rparr>
      | Some u \<Rightarrow> s\<lparr>inflight := inflight s @ [u], channel := Some u\<rparr>)"
| "stats_step s Cleanup = s\<lparr>channel := None\<rparr>"
| "stats_step s (FetchDone u r) =
     (if u \<in> set (inflight s) then fetchUserStats (s\<lparr>inflight := remove1 u (inflight s)\<rparr>) r
      else s)"
| "stats_step s (Change u p) = (if channel s = Some u then stats_on_change s p else s)"

definition stats_run :: "stats_hook \<Rightarrow> (stats_row response, stats_row option) hook_event list \<Rightarrow> stats_hook" where
  "stats_run = foldl stats_step"

text \<open>An answer that is a remote error, or a rejection.\<close>

fun failed :: "'a response \<Rightarrow> bool" where
  "failed (Resolved d (Some e)) = True"
| "failed (Resolved d None) = False"
| "failed (Rejected t) = True"


subsection \<open>useUserActivity\<close>

datatype action_type = Update | Follower | Approval | Achievement

record UserActivity =
  activity_id :: string
  action :: string
  action_type :: action_type
  created_at :: string

type_synonym activity_hook = "UserActivity list live_query"

definition activity_initial :: activity_hook where
  "activity_initial = \<lparr>data = [], loading = True, error = None,
                        channel = None, inflight = []\<rparr>"

text \<open>The body of \<open>fetchUserActivity\<close> after its \<open>await\<close>; an array is always truthy.\<close>

fun fetchUserActivity :: "activity_hook \<Rightarrow> UserActivity list response \<Rightarrow> activity_hook" where
  "fetchUserActivity s (Resolved d (Some e)) = s\<lparr>data := [], error := None, loading := False\<rparr>"
| "fetchUserActivity s (Resolved (Some rows) None) = s\<lparr>data := rows, loading := False\<rparr>"
| "fetchUserActivity s (Resolved None None) = s\<lparr>loading := False\<rparr>"
| "fetchUserActivity s (Rejected t) = s\<lparr>data := [], loading := False\<rparr>"

text \<open>
  The functional update of the \<open>INSERT\<close> callback,
  \<open>(prev) => [payload.new, ...prev.slice(0, limit - 1)]\<close>.
\<close>

definition activity_insert :: "int \<Rightarrow> UserActivity \<Rightarrow> UserActivity list \<Rightarrow> UserActivity list" where
  "activity_insert limit new prev = new # slice0 prev (limit - 1)"

fun activity_on_change :: "int \<Rightarrow> activity_hook \<Rightarrow> UserActivity option \<Rightarrow> activity_hook" where
  "activity_on_change limit s (Some new) = s\<lparr>data := activity_insert limit new (data s)\<rparr>"
| "activity_on_change limit s None = s"

fun activity_step :: "int \<Rightarrow> activity_hook \<Rightarrow> (UserActivity list response, UserActivity option) hook_event \<Rightarrow> activity_hook" where
  "activity_step limit s (Effect uid) =
     (case usable_id uid of
        None \<Rightarrow> s\<lparr>loading := False, data := []\<rparr>
      | Some u \<Rightarrow> s\<lparr>inflight := inflight s @ [u], channel := Some u\<rparr>)"
| "activity_step limit s Cleanup = s\<lparr>channel := None\<rparr>"
| "activity_step limit s (FetchDone u r) =
     (if u \<in> set (inflight s) then fetchUserActivity (s\<lparr>inflight := remove1 u (inflight s)\<rparr>) r
      else s)"
| "activity_step limit s (Change u p) =
     (if channel s = Some u then activity_on_change limit s p else s)"

definition activity_run :: "int \<Rightarrow> activity_hook \<Rightarrow> (UserActivity list response, UserActivity option) hook_event list \<Rightarrow> activity_hook" where
  "activity_run limit = foldl (activity_step limit)"


subsection \<open>useChallenges\<close>

datatype challenge_status = Active | Completed | Expired

text \<open>
  A row of the \<open>challenges\<close> table: the fields of the \<open>Challenge\<close> interface and the
  \<open>user_id\<close> column the query filters on (\<open>select('*')\<close> returns it too, and the cast
  to \<open>Challenge[]\<close> does not drop it).
\<close>

record Challenge =
  challenge_id :: string
  title :: string
  description :: "string option"
  progress :: number
  reward :: string
  status :: challenge_status
  user_id :: string

text \<open>
  The query of \<open>fetchChallenges\<close>,
  \<open>from('challenges').select('*').eq('user_id', user.id).eq('status', 'active').limit(3)\<close>,
  as a store evaluates it on a table: \<open>eq\<close> keeps the rows whose column equals the
  value, \<open>limit\<close> keeps the first rows of the result. The hook never evaluates the
  query itself; it receives an answer.
\<close>

definition select_challenges :: "string \<Rightarrow> Challenge list \<Rightarrow> Challenge list" where
  "select_challenges u table =
     take 3 (filter (\<lambda>r. status r = Active) (filter (\<lambda>r. user_id r = u) table))"

text \<open>The event types of \<open>postgres_changes\<close>; the channel listens to all (\<open>event: '*'\<close>).\<close>

datatype change_type = INSERT | UPDATE | DELETE

type_synonym challenges_hook = "Challenge list live_query"

definition challenges_initial :: challenges_hook where
  "challenges_initial = \<lparr>data = [], loading = True, error = None,
                          channel = None, inflight = []\<rparr>"

text \<open>The body of \<open>fetchChallenges\<close> after its \<open>await\<close>.\<close>

fun fetchChallenges :: "challenges_hook \<Rightarrow> Challenge list response \<Rightarrow> challenges_hook" where
  "fetchChallenges s (Resolved d (Some e)) = s\<lparr>data := [], error := None, loading := False\<rparr>"
| "fetchChallenges s (Resolved (Some rows) None) = s\<lparr>data := rows, loading := False\<rparr>"
| "fetchChallenges s (Resolved None None) = s\<lparr>loading := False\<rparr>"
| "fetchChallenges s (Rejected t) = s\<lparr>data := [], loading := False\<rparr>"

text \<open>
  A completed fetch hands its answer to \<open>fetchChallenges\<close> as received. The channel
  listens to every event type and its callback ignores the payload: it calls
  \<open>fetchChallenges()\<close>, which issues one more query for the effect's identity.
\<close>

fun challenges_step :: "challenges_hook \<Rightarrow> (Challenge list response, change_type) hook_event \<Rightarrow> challenges_hook" where
  "challenges_step s (Effect uid) =
     (case usable_id uid of
        None \<Rightarrow> s\<lparr>loading := False, data := []\<rparr>
      | Some u \<Rightarrow> s\<lparr>inflight := inflight s @ [u], channel := Some u\<rparr>)"
| "challenges_step s Cleanup = s\<lparr>channel := None\<rparr>"
| "challenges_step s (FetchDone u r) =
     (if u \<in> set (inflight s) then fetchChallenges (s\<lparr>inflight := remove1 u (inflight s)\<rparr>) r
      else s)"
| "challenges_step s (Change u p) =
     (if channel s = Some u then s\<lparr>inflight := inflight s @ [u]\<rparr> else s)"

definition challenges_run :: "challenges_hook \<Rightarrow> (Challenge list response, change_type) hook_event list \<Rightarrow> challenges_hook" where
  "challenges_run = foldl challenges_step"









section \<open>The auth provider\<close>

datatype role = Creator | Member

datatype tier = Free | Premium | Professional | Elite

text \<open>
  A row of \<open>profiles\<close>. The columns \<open>id\<close> and \<open>loyalty_points\<close> carry a prime here, the
  first because \<open>id\<close> is the identity function of HOL, the second because the stats
  record has a field of that name.
\<close>

record Profile =
  id' :: string
  name :: string
  tier :: tier
  loyalty_points' :: number
  profile_image :: "string option"
  account_type :: role
  role :: role
  is_verified :: bool
  joined_date :: string

record AppUser = Profile +
  email :: string

text \<open>\<open>Partial<Profile>\<close>: each field present (\<open>Some\<close>) or left out.\<close>

record ProfilePartial =
  new_id :: "string option"
  new_name :: "string option"
  new_tier :: "tier option"
  new_loyalty_points :: "number option"
  new_profile_image :: "string option"
  new_account_type :: "role option"
  new_role :: "role option"
  new_is_verified :: "bool option"
  new_joined_date :: "string option"

definition no_fields :: ProfilePartial where
  "no_fields = \<lparr>new_id = None, new_name = None, new_tier = None, new_loyalty_points = None,
                  new_profile_image = None, new_account_type = None, new_role = None,
                  new_is_verified = None, new_joined_date = None\<rparr>"



record AuthState =
  user :: "AppUser option"
  auth_loading :: bool

text \<open>What an operation asks of the outside world, in the order it asks.\<close>

datatype call =
    AuthSignIn string string
  | AuthSignUp string string string string
  | AuthSignOut
  | UpdateProfiles ProfilePartial string
  | SelectProfile string
  | UpdateUserStats stats_row string
  | Alert string
  | Timeout nat

text \<open>
  An operation run to its end: the provider's state then, the calls it made, and
  whether the promise it returned resolved (\<open>Inr\<close>) or rejected (\<open>Inl\<close>).
\<close>

record 'a ran =
  state_after :: AuthState
  calls :: "call list"
  outcome :: "thrown + 'a"

text \<open>\<open>getProfile\<close> after its \<open>await\<close>; \<open>{...profile, email: email}\<close> adds the email to the row.\<close>

fun getProfile :: "string \<Rightarrow> string \<Rightarrow> Profile response \<Rightarrow> thrown + AppUser option" where
  "getProfile i e (Resolved p (Some err)) = Inr None"
| "getProfile i e (Resolved (Some p) None) = Inr (Some (Profile.extend p (AppUser.fields e)))"
| "getProfile i e (Resolved None None) = Inr None"
| "getProfile i e (Rejected t) = Inl t"



text \<open>
  \<open>signOut\<close>: \<open>await supabase.auth.signOut(); setUser(null);\<close> with no \<open>try\<close> around the
  call, and the answer's \<open>error\<close> not looked at.
\<close>

fun signOut :: "AuthState \<Rightarrow> unit response \<Rightarrow> unit ran" where
  "signOut s (Resolved d e) = \<lparr>state_after = s\<lparr>user := None\<rparr>, calls = [AuthSignOut], outcome = Inr ()\<rparr>"
| "signOut s (Rejected t) = \<lparr>state_after = s, calls = [AuthSignOut], outcome = Inl t\<rparr>"

text \<open>
  The sign-out branch of \<open>handleAuthEvent\<close> (events \<open>TOKEN_REFRESH_FAILED\<close> and
  \<open>SIGNED_OUT\<close>): the same remote call inside \<open>try\<close>/\<open>catch\<close>, then
  \<open>if (mounted) setUser(null)\<close>, and in \<open>finally\<close> \<open>if (mounted) setLoading(false)\<close>.
\<close>

definition handleAuthEvent_signed_out :: "bool \<Rightarrow> AuthState \<Rightarrow> unit response \<Rightarrow> unit ran" where
  "handleAuthEvent_signed_out mounted s r =
     \<lparr>state_after = (if mounted then s\<lparr>user := None, auth_loading := False\<rparr> else s),
      calls = [AuthSignOut], outcome = Inr ()\<rparr>"

text \<open>
  \<open>updateUser\<close>: the first answer is that of the update, the second that of the
  \<open>getProfile\<close> query, awaited only after an update without error.
\<close>

fun updateUser_on :: "AuthState \<Rightarrow> AppUser \<Rightarrow> ProfilePartial \<Rightarrow> unit response \<Rightarrow> Profile response \<Rightarrow> unit ran" where
  "updateUser_on s u p (Resolved d (Some e)) g =
     \<lparr>state_after = s, calls = [UpdateProfiles p (id' u)], outcome = Inr ()\<rparr>"
| "updateUser_on s u p (Resolved d None) g =
     (case getProfile (id' u) (email u) g of
        Inl t \<Rightarrow> \<lparr>state_after = s, calls = [UpdateProfiles p (id' u), SelectProfile (id' u)],
                  outcome = Inl t\<rparr>
      | Inr updatedUser \<Rightarrow>
          \<lparr>state_after = s\<lparr>user := updatedUser\<rparr>,
           calls = [UpdateProfiles p (id' u), SelectProfile (id' u)], outcome = Inr ()\<rparr>)"
| "updateUser_on s u p (Rejected t) g =
     \<lparr>state_after = s, calls = [UpdateProfiles p (id' u)], outcome = Inl t\<rparr>"

definition updateUser :: "AuthState \<Rightarrow> ProfilePartial \<Rightarrow> unit response \<Rightarrow> Profile response \<Rightarrow> unit ran" where
  "updateUser s p r g =
     (case user s of
        None \<Rightarrow> \<lparr>state_after = s, calls = [], outcome = Inr ()\<rparr>
      | Some u \<Rightarrow> updateUser_on s u p r g)"

text \<open>\<open>x === 'creator' ? 'member' : 'creator'\<close>\<close>

definition other_role :: "role \<Rightarrow> role" where
  "other_role x = (if x = Creator then Member else Creator)"

definition switchRole :: "AuthState \<Rightarrow> unit response \<Rightarrow> Profile response \<Rightarrow> unit ran" where
  "switchRole s r g =
     (case user s of
        None \<Rightarrow> \<lparr>state_after = s, calls = [], outcome = Inr ()\<rparr>
      | Some u \<Rightarrow>
          updateUser s (no_fields\<lparr>new_role := Some (other_role (role u)),
                                   new_account_type := Some (other_role (account_type u))\<rparr>) r g)"

text \<open>
  What the store does with \<open>update(p).eq('id', i)\<close> on the row with that id: the fields
  present in \<open>p\<close> are overwritten, the others kept.
\<close>

definition apply_partial :: "ProfilePartial \<Rightarrow> Profile \<Rightarrow> Profile" where
  "apply_partial p row =
     \<lparr>id' = (case new_id p of None \<Rightarrow> id' row | Some v \<Rightarrow> v),
      name = (case new_name p of None \<Rightarrow> name row | Some v \<Rightarrow> v),
      tier = (case new_tier p of None \<Rightarrow> tier row | Some v \<Rightarrow> v),
      loyalty_points' = (case new_loyalty_points p of None \<Rightarrow> loyalty_points' row | Some v \<Rightarrow> v),
      profile_image = (case new_profile_image p of None \<Rightarrow> profile_image row | Some v \<Rightarrow> Some v),
      account_type = (case new_account_type p of None \<Rightarrow> account_type row | Some v \<Rightarrow> v),
      role = (case new_role p of None \<Rightarrow> role row | Some v \<Rightarrow> v),
      is_verified = (case new_is_verified p of None \<Rightarrow> is_verified row | Some v \<Rightarrow> v),
      joined_date = (case new_joined_date p of None \<Rightarrow> joined_date row | Some v \<Rightarrow> v)\<rparr>"


section \<open>The stats writer\<close>

text \<open>
  \<open>updateStats\<close>. \<open>UpdateUserStatsInput\<close> has the five stats fields, each optional, which
  is the shape of \<open>stats_row\<close>. The \<open>try\<close> block throws on a reported error and returns
  \<open>data\<close> otherwise; the \<open>catch\<close> block rethrows a fresh \<open>Error\<close> whatever was thrown.
\<close>

fun updateStats_try :: "stats_row response \<Rightarrow> thrown + stats_row option" where
  "updateStats_try (Resolved d (Some e)) = Inl (ErrorObj (or_str (message e) ''Failed to update stats''))"
| "updateStats_try (Resolved d None) = Inr d"
| "updateStats_try (Rejected t) = Inl t"

fun updateStats_catch :: "thrown \<Rightarrow> thrown" where
  "updateStats_catch (ErrorObj m) = ErrorObj m"
| "updateStats_catch NonError = ErrorObj ''Unknown error''"

definition updateStats :: "AppUser option \<Rightarrow> stats_row \<Rightarrow> stats_row response \<Rightarrow> call list \<times> (thrown + stats_row option)" where
  "updateStats usr updates r =
     (case usable_id (map_option id' usr) of
        None \<Rightarrow> ([], Inl (ErrorObj ''User not authenticated''))
      | Some i \<Rightarrow>
          ([UpdateUserStats updates i],
           (case updateStats_try r of Inl t \<Rightarrow> Inl (updateStats_catch t) | Inr d \<Rightarrow> Inr d)))"

definition sample_user :: AppUser where
  "sample_user =
     \<lparr>id' = ''u1'', name = ''Ada'', tier = Premium, loyalty_points' = 1200, profile_image = None,
      account_type = Member, role = Creator, is_verified = True,
      joined_date = ''2023-11-02'', email = ''ada@example.org''\<rparr>"


text \<open>Sample rows for evaluating the hooks on concrete inputs.\<close>

definition sample_challenge :: "string \<Rightarrow> string \<Rightarrow> challenge_status \<Rightarrow> Challenge" where
  "sample_challenge cid uid st =
     \<lparr>challenge_id = cid, title = ''Weekly upload'', description = None, progress = 40,
      reward = ''50 points'', status = st, user_id = uid\<rparr>"

definition sample_table :: "Challenge list" where
  "sample_table =
     [sample_challenge ''c1'' ''u1'' Active, sample_challenge ''c2'' ''u2'' Active,
      sample_challenge ''c3'' ''u1'' Completed, sample_challenge ''c4'' ''u1'' Active,
      sample_challenge ''c5'' ''u1'' Active, sample_challenge ''c6'' ''u1'' Active]"

definition sample_stats_row :: stats_row where
  "sample_stats_row =
     \<lparr>row_portfolio_views = Some 120, row_followers = Some 42, row_rating = Some (9 / 2),
      row_loyalty_points = None, row_projects_completed = Some 7\<rparr>"

definition sample_activity :: "string \<Rightarrow> UserActivity" where
  "sample_activity aid =
     \<lparr>activity_id = aid, action = ''New follower'', action_type = Follower,
      created_at = ''2024-05-01T10:00:00Z''\<rparr>"



section \<open>Read-path errors are swallowed\<close>

lemma fetchUserStats_error: "error s = None \<Longrightarrow> error (fetchUserStats s r) = None"
  by (cases "(s, r)" rule: fetchUserStats.cases) auto

lemma stats_on_change_error: "error (stats_on_change s p) = error s"
  by (cases p) auto

lemma stats_step_error: "error s = None \<Longrightarrow> error (stats_step s e) = None"
  by (cases e) (auto simp: fetchUserStats_error stats_on_change_error split: option.splits)

lemma stats_run_error: "error s = None \<Longrightarrow> error (stats_run s es) = None"
  unfolding stats_run_def
  by (induction es arbitrary: s) (simp_all add: stats_step_error)

lemma fetchUserStats_failed: "failed r \<Longrightarrow> data (fetchUserStats s r) = Some zero_stats"
  by (cases "(s, r)" rule: fetchUserStats.cases) auto

text \<open>
  C1. Whatever happened to the stats hook before, when a fetch it awaits for identity
  \<open>u\<close> completes with a remote error or by throwing, the stats are the all-zero record
  and the exposed error is \<open>null\<close>.
\<close>

theorem stats_fetch_failure_gives_zero:
  assumes "failed r" and "u \<in> set (inflight (stats_run stats_initial es))"
  shows "data (stats_step (stats_run stats_initial es) (FetchDone u r)) = Some zero_stats
       \<and> error (stats_step (stats_run stats_initial es) (FetchDone u r)) = None
       \<and> loading (stats_step (stats_run stats_initial es) (FetchDone u r)) = False"
proof -
  let ?s = "stats_run stats_initial es"
  have e0: "error ?s = None"
    by (rule stats_run_error) (simp add: stats_initial_def)
  have "error (stats_step ?s (FetchDone u r)) = None"
    by (rule stats_step_error [OF e0])
  moreover have "data (stats_step ?s (FetchDone u r)) = Some zero_stats"
    using assms by (simp add: fetchUserStats_failed)
  moreover have "loading (stats_step ?s (FetchDone u r)) = False"
    using assms(2) by (cases "(?s\<lparr>inflight := remove1 u (inflight ?s)\<rparr>, r)" rule: fetchUserStats.cases) auto
  ultimately show ?thesis by simp
qed

theorem stats_fetch_failure_gives_zero_witness:
  "failed (Resolved None (Some (RemoteError ''permission denied'')) :: stats_row response)
   \<and> ''u1'' \<in> set (inflight (stats_run stats_initial [Effect (Some ''u1'')]))
   \<and> data (stats_step (stats_run stats_initial [Effect (Some ''u1'')])
        (FetchDone ''u1'' (Resolved None (Some (RemoteError ''permission denied''))))) = Some zero_stats
   \<and> error (stats_step (stats_run stats_initial [Effect (Some ''u1'')])
        (FetchDone ''u1'' (Resolved None (Some (RemoteError ''permission denied''))))) = None"
proof -
  have a: "failed (Resolved None (Some (RemoteError ''permission denied'')) :: stats_row response)"
    by simp
  have b: "''u1'' \<in> set (inflight (stats_run stats_initial [Effect (Some ''u1'')]))"
    by (simp add: stats_run_def stats_initial_def usable_id_def)
  show ?thesis
    using a b stats_fetch_failure_gives_zero [OF a b] by simp
qed


section \<open>The activity feed's cap\<close>








section \<open>Challenges: re-fetch on every event, capped and filtered result\<close>











lemma challenges_stores_answer:
  "u \<in> set (inflight s) \<Longrightarrow> data (challenges_step s (FetchDone u (Resolved (Some rows) None))) = rows"
  by simp





section \<open>Completions after teardown\<close>

lemma stats_change_after_cleanup: "stats_step (stats_step s Cleanup) (Change u p) = stats_step s Cleanup"
  by simp

lemma activity_change_after_cleanup:
  "activity_step limit (activity_step limit s Cleanup) (Change u p) = activity_step limit s Cleanup"
  by simp

lemma challenges_change_after_cleanup:
  "challenges_step (challenges_step s Cleanup) (Change u p) = challenges_step s Cleanup"
  by simp

text \<open>
  C2 on the code. In each hook the effect runs for identity \<open>u1\<close>; before its initial
  fetch has completed the user signs out, so the cleanup runs and the effect runs again
  without an identity, resetting the data to its default. The channel is unsubscribed
  and change events no longer reach the callbacks (the three lemmas above), but the
  fetch is still awaited: when it completes it writes the rows of \<open>u1\<close> over the
  default, with no check of any flag. The hooks keep no liveness flag.
\<close>

theorem fetch_completion_after_cleanup_mutates:
  "channel (stats_run stats_initial [Effect (Some ''u1''), Cleanup, Effect None]) = None
   \<and> data (stats_run stats_initial [Effect (Some ''u1''), Cleanup, Effect None]) = Some zero_stats
   \<and> data (stats_run stats_initial
        [Effect (Some ''u1''), Cleanup, Effect None,
         FetchDone ''u1'' (Resolved (Some sample_stats_row) None)])
       = Some \<lparr>portfolio_views = 120, followers = 42, rating = 9 / 2, loyalty_points = 0,
               projects_completed = 7\<rparr>
   \<and> channel (activity_run 10 activity_initial [Effect (Some ''u1''), Cleanup, Effect None]) = None
   \<and> data (activity_run 10 activity_initial [Effect (Some ''u1''), Cleanup, Effect None]) = []
   \<and> data (activity_run 10 activity_initial
        [Effect (Some ''u1''), Cleanup, Effect None,
         FetchDone ''u1'' (Resolved (Some [sample_activity ''a1'']) None)])
       = [sample_activity ''a1'']
   \<and> channel (challenges_run challenges_initial [Effect (Some ''u1''), Cleanup, Effect None]) = None
   \<and> data (challenges_run challenges_initial [Effect (Some ''u1''), Cleanup, Effect None]) = []
   \<and> data (challenges_run challenges_initial
        [Effect (Some ''u1''), Cleanup, Effect None, FetchDone ''u1'' (Resolved (Some (select_challenges ''u1'' sample_table)) None)])
       = [sample_challenge ''c1'' ''u1'' Active, sample_challenge ''c4'' ''u1'' Active,
          sample_challenge ''c5'' ''u1'' Active]"
  by (simp add: stats_run_def stats_initial_def activity_run_def activity_initial_def
      challenges_run_def challenges_initial_def usable_id_def stats_of_row_def or0_def
      sample_stats_row_def sample_table_def sample_challenge_def zero_stats_def
      select_challenges_def)

text \<open>
  The same on an identity change from \<open>u1\<close> to \<open>u2\<close>: the fetch issued for \<open>u1\<close> completes
  after the one for \<open>u2\<close>, and the hook, subscribed for \<open>u2\<close>, shows the rows of \<open>u1\<close>.
\<close>

lemma stale_identity_rows_shown:
  "channel (challenges_run challenges_initial
      [Effect (Some ''u1''), Cleanup, Effect (Some ''u2''),
       FetchDone ''u2'' (Resolved (Some (select_challenges ''u2'' sample_table)) None), FetchDone ''u1'' (Resolved (Some (select_challenges ''u1'' sample_table)) None)]) = Some ''u2''
   \<and> map user_id (data (challenges_run challenges_initial
      [Effect (Some ''u1''), Cleanup, Effect (Some ''u2''),
       FetchDone ''u2'' (Resolved (Some (select_challenges ''u2'' sample_table)) None), FetchDone ''u1'' (Resolved (Some (select_challenges ''u1'' sample_table)) None)]))
       = [''u1'', ''u1'', ''u1'']"
  by (simp add: challenges_run_def challenges_initial_def usable_id_def sample_table_def
      sample_challenge_def select_challenges_def)


section \<open>Sign-in and sign-up failures\<close>






section \<open>The stats writer's failures\<close>

lemma updateStats_catch_is_Error: "\<exists>m. updateStats_catch t = ErrorObj m"
  by (cases t) auto

lemma updateStats_try_failed: "failed r \<Longrightarrow> \<exists>t. updateStats_try r = Inl t"
  by (cases r rule: failed.cases) auto

text \<open>
  C5. Without an identity \<open>updateStats\<close> throws \<open>Error('User not authenticated')\<close> and asks
  nothing of the store. With one: a reported error is thrown as an \<open>Error\<close> with the
  remote message (with \<open>'Failed to update stats'\<close> if that message is empty); a rejection
  is thrown as an \<open>Error\<close> with the thrown error's message, or \<open>'Unknown error'\<close> if what
  was thrown is no \<open>Error\<close>; an answer without error returns its row; and no failed
  answer yields a return.
\<close>

theorem updateStats_contract:
  assumes "usable_id (map_option id' anon) = None"
    and "usable_id (map_option id' usr) = Some i"
  shows "updateStats anon updates r = ([], Inl (ErrorObj ''User not authenticated''))
       \<and> snd (updateStats usr updates (Resolved d (Some e)))
           = Inl (ErrorObj (if message e = [] then ''Failed to update stats'' else message e))
       \<and> snd (updateStats usr updates (Rejected (ErrorObj m))) = Inl (ErrorObj m)
       \<and> snd (updateStats usr updates (Rejected NonError)) = Inl (ErrorObj ''Unknown error'')
       \<and> updateStats usr updates (Resolved (Some row) None) = ([UpdateUserStats updates i], Inr (Some row))
       \<and> (failed r \<longrightarrow> (\<exists>m. snd (updateStats usr updates r) = Inl (ErrorObj m)))"
proof -
  have dropped: "\<exists>m. snd (updateStats usr updates r) = Inl (ErrorObj m)" if f: "failed r"
  proof -
    obtain t where t: "updateStats_try r = Inl t"
      using updateStats_try_failed [OF f] by blast
    obtain m where "updateStats_catch t = ErrorObj m"
      using updateStats_catch_is_Error by blast
    then show ?thesis using t assms(2) by (simp add: updateStats_def)
  qed
  show ?thesis
    using assms dropped by (simp add: updateStats_def or_str_def)
qed

theorem updateStats_contract_witness:
  "usable_id (map_option id' (None :: AppUser option)) = None
   \<and> usable_id (map_option id' (Some sample_user)) = Some ''u1''
   \<and> updateStats None sample_stats_row (Resolved (Some sample_stats_row) None)
       = ([], Inl (ErrorObj ''User not authenticated''))
   \<and> snd (updateStats (Some sample_user) sample_stats_row
          (Resolved None (Some (RemoteError ''permission denied for table user_stats''))))
       = Inl (ErrorObj ''permission denied for table user_stats'')
   \<and> updateStats (Some sample_user) sample_stats_row (Resolved (Some sample_stats_row) None)
       = ([UpdateUserStats sample_stats_row ''u1''], Inr (Some sample_stats_row))"
proof -
  have a: "usable_id (map_option id' (None :: AppUser option)) = None"
    by (simp add: usable_id_def)
  have b: "usable_id (map_option id' (Some sample_user)) = Some ''u1''"
    by (simp add: usable_id_def sample_user_def)
  show ?thesis
    using a b
      updateStats_contract [OF a b, of sample_stats_row "Resolved (Some sample_stats_row) None"
        None "RemoteError ''permission denied for table user_stats''" _ sample_stats_row]
    by simp
qed


section \<open>Sign-out\<close>

lemma signOut_resolved_clears: "user (state_after (signOut s (Resolved d e))) = None"
  by simp

lemma handleAuthEvent_signed_out_clears:
  "user (state_after (handleAuthEvent_signed_out True s r)) = None"
  by (simp add: handleAuthEvent_signed_out_def)

text \<open>
  C6 on the code. A user is signed in and the remote sign-out call rejects (the
  network is down): \<open>signOut\<close> leaves at the \<open>await\<close>, \<open>setUser(null)\<close> is not reached and
  the identity stays. The auth listener's sign-out branch, on the same rejection,
  catches it and clears the identity.
\<close>

theorem signOut_rejected_keeps_identity:
  "user (state_after (signOut \<lparr>user = Some sample_user, auth_loading = False\<rparr>
      (Rejected (ErrorObj ''Failed to fetch'')))) = Some sample_user
   \<and> outcome (signOut \<lparr>user = Some sample_user, auth_loading = False\<rparr>
      (Rejected (ErrorObj ''Failed to fetch''))) = Inl (ErrorObj ''Failed to fetch'')
   \<and> user (state_after (handleAuthEvent_signed_out True
      \<lparr>user = Some sample_user, auth_loading = False\<rparr> (Rejected (ErrorObj ''Failed to fetch'')))) = None"
  by (simp add: handleAuthEvent_signed_out_def)


section \<open>Profile updates\<close>

lemma updateUser_on_first_call:
  "take (Suc 0) (calls (updateUser_on s u p r g)) = [UpdateProfiles p (id' u)]"
  by (cases "(s, u, p, r, g)" rule: updateUser_on.cases) (auto split: sum.splits)

text \<open>
  C8. Without an identity \<open>updateUser\<close> changes nothing and asks nothing of the store.
  With identity \<open>u\<close>: its first call is the update of the submitted partial on the row
  with \<open>u\<close>'s id; after an update without error and a re-fetch that returns a row, the
  identity is that row with \<open>u\<close>'s email, whatever partial was submitted; after an update
  with a reported error, or one that rejects, the state is as before.
\<close>

theorem updateUser_contract:
  "updateUser (s\<lparr>user := None\<rparr>) p r g
     = \<lparr>state_after = s\<lparr>user := None\<rparr>, calls = [], outcome = Inr ()\<rparr>
   \<and> take 1 (calls (updateUser (s\<lparr>user := Some u\<rparr>) p r g)) = [UpdateProfiles p (id' u)]
   \<and> updateUser (s\<lparr>user := Some u\<rparr>) p (Resolved d None) (Resolved (Some row) None)
     = \<lparr>state_after = s\<lparr>user := Some (Profile.extend row (AppUser.fields (email u)))\<rparr>,
        calls = [UpdateProfiles p (id' u), SelectProfile (id' u)], outcome = Inr ()\<rparr>
   \<and> state_after (updateUser (s\<lparr>user := Some u\<rparr>) p (Resolved d None) (Resolved (Some row) None))
     = state_after (updateUser (s\<lparr>user := Some u\<rparr>) p' (Resolved d None) (Resolved (Some row) None))
   \<and> state_after (updateUser (s\<lparr>user := Some u\<rparr>) p (Resolved d (Some e)) g) = s\<lparr>user := Some u\<rparr>
   \<and> state_after (updateUser (s\<lparr>user := Some u\<rparr>) p (Rejected t) g) = s\<lparr>user := Some u\<rparr>"
  by (simp add: updateUser_def updateUser_on_first_call)

text \<open>
  C10. With identity \<open>u\<close>, after an update without error, a re-fetch that reports an
  error or returns no row sets the identity to \<open>null\<close>, and \<open>updateUser\<close> resolves.
\<close>

theorem updateUser_refetch_failure_clears_identity:
  "state_after (updateUser (s\<lparr>user := Some u\<rparr>) p (Resolved d None) (Resolved x (Some e)))
     = s\<lparr>user := None\<rparr>
   \<and> state_after (updateUser (s\<lparr>user := Some u\<rparr>) p (Resolved d None) (Resolved None None))
     = s\<lparr>user := None\<rparr>
   \<and> outcome (updateUser (s\<lparr>user := Some u\<rparr>) p (Resolved d None) (Resolved x (Some e))) = Inr ()
   \<and> outcome (updateUser (s\<lparr>user := Some u\<rparr>) p (Resolved d None) (Resolved None None)) = Inr ()"
  by (simp add: updateUser_def)


section \<open>Switching roles\<close>

lemma other_role_flips: "other_role x \<noteq> x"
  by (cases x) (simp_all add: other_role_def)

lemma other_role_inj: "(other_role x = other_role y) = (x = y)"
  by (cases x; cases y) (simp_all add: other_role_def)

text \<open>
  C9, as stated, on a user whose \<open>role\<close> is \<open>creator\<close> and whose \<open>account_type\<close> is
  \<open>member\<close>: \<open>switchRole\<close> submits \<open>role = member\<close>, \<open>account_type = creator\<close>; the store
  applies it, the re-fetch returns the row, and the two fields of the new identity
  differ.
\<close>

theorem switchRole_fields_stay_unequal:
  "role sample_user = Creator \<and> account_type sample_user = Member
   \<and> calls (switchRole \<lparr>user = Some sample_user, auth_loading = False\<rparr> (Resolved None None)
        (Resolved (Some (apply_partial
            (no_fields\<lparr>new_role := Some Member, new_account_type := Some Creator\<rparr>)
            (Profile.truncate sample_user))) None))
       = [UpdateProfiles (no_fields\<lparr>new_role := Some Member, new_account_type := Some Creator\<rparr>) ''u1'',
          SelectProfile ''u1'']
   \<and> map_option role (user (state_after
        (switchRole \<lparr>user = Some sample_user, auth_loading = False\<rparr> (Resolved None None)
          (Resolved (Some (apply_partial
            (no_fields\<lparr>new_role := Some Member, new_account_type := Some Creator\<rparr>)
            (Profile.truncate sample_user))) None)))) = Some Member
   \<and> map_option account_type (user (state_after
        (switchRole \<lparr>user = Some sample_user, auth_loading = False\<rparr> (Resolved None None)
          (Resolved (Some (apply_partial
            (no_fields\<lparr>new_role := Some Member, new_account_type := Some Creator\<rparr>)
            (Profile.truncate sample_user))) None)))) = Some Creator"
  by (simp add: switchRole_def updateUser_def sample_user_def other_role_def no_fields_def
      apply_partial_def Profile.truncate_def Profile.extend_def AppUser.fields_def)

text \<open>
  C9, amended. With identity \<open>u\<close>, \<open>switchRole\<close> makes the calls of \<open>updateUser\<close> on the
  partial that holds just \<open>role\<close> and \<open>account_type\<close>, each the opposite of \<open>u\<close>'s own value
  of that field, the first call being that update on the row with \<open>u\<close>'s id. When the
  update succeeds and the re-fetch returns a row with that partial applied, the new
  identity is that row with \<open>u\<close>'s email, its \<open>role\<close> and \<open>account_type\<close> are those opposite
  values, and the two are equal exactly when \<open>u\<close>'s \<open>role\<close> and \<open>account_type\<close> were equal.
\<close>

theorem switchRole_toggles_each_field:
  "switchRole (s\<lparr>user := Some u\<rparr>) r g
     = updateUser (s\<lparr>user := Some u\<rparr>)
         (no_fields\<lparr>new_role := Some (other_role (role u)),
                     new_account_type := Some (other_role (account_type u))\<rparr>) r g
   \<and> take 1 (calls (switchRole (s\<lparr>user := Some u\<rparr>) r g))
     = [UpdateProfiles (no_fields\<lparr>new_role := Some (other_role (role u)),
                                   new_account_type := Some (other_role (account_type u))\<rparr>) (id' u)]
   \<and> other_role (role u) \<noteq> role u
   \<and> other_role (account_type u) \<noteq> account_type u
   \<and> (other_role (role u) = other_role (account_type u)) = (role u = account_type u)
   \<and> switchRole (s\<lparr>user := None\<rparr>) r g
     = \<lparr>state_after = s\<lparr>user := None\<rparr>, calls = [], outcome = Inr ()\<rparr>
   \<and> state_after (switchRole (s\<lparr>user := Some u\<rparr>) (Resolved d None)
        (Resolved (Some (apply_partial
           (no_fields\<lparr>new_role := Some (other_role (role u)),
                       new_account_type := Some (other_role (account_type u))\<rparr>) row)) None))
     = s\<lparr>user := Some (Profile.extend (apply_partial
           (no_fields\<lparr>new_role := Some (other_role (role u)),
                       new_account_type := Some (other_role (account_type u))\<rparr>) row)
           (AppUser.fields (email u)))\<rparr>
   \<and> map_option role (user (state_after (switchRole (s\<lparr>user := Some u\<rparr>) (Resolved d None)
        (Resolved (Some (apply_partial
           (no_fields\<lparr>new_role := Some (other_role (role u)),
                       new_account_type := Some (other_role (account_type u))\<rparr>) row)) None))))
     = Some (other_role (role u))
   \<and> map_option account_type (user (state_after (switchRole (s\<lparr>user := Some u\<rparr>) (Resolved d None)
        (Resolved (Some (apply_partial
           (no_fields\<lparr>new_role := Some (other_role (role u)),
                       new_account_type := Some (other_role (account_type u))\<rparr>) row)) None))))
     = Some (other_role (account_type u))
   \<and> (map_option role (user (state_after (switchRole (s\<lparr>user := Some u\<rparr>) (Resolved d None)
        (Resolved (Some (apply_partial
           (no_fields\<lparr>new_role := Some (other_role (role u)),
                       new_account_type := Some (other_role (account_type u))\<rparr>) row)) None))))
      = map_option account_type (user (state_after (switchRole (s\<lparr>user := Some u\<rparr>) (Resolved d None)
        (Resolved (Some (apply_partial
           (no_fields\<lparr>new_role := Some (other_role (role u)),
                       new_account_type := Some (other_role (account_type u))\<rparr>) row)) None)))))
     = (role u = account_type u)"
proof -
  let ?p = "no_fields\<lparr>new_role := Some (other_role (role u)),
                        new_account_type := Some (other_role (account_type u))\<rparr>"
  let ?st = "state_after (switchRole (s\<lparr>user := Some u\<rparr>) (Resolved d None)
               (Resolved (Some (apply_partial ?p row)) None))"
  have st: "?st = s\<lparr>user := Some (Profile.extend (apply_partial ?p row) (AppUser.fields (email u)))\<rparr>"
    by (simp add: switchRole_def updateUser_def)
  have ro: "role (Profile.extend (apply_partial ?p row) (AppUser.fields (email u))) = other_role (role u)"
    by (simp add: apply_partial_def Profile.extend_def)
  have ac: "account_type (Profile.extend (apply_partial ?p row) (AppUser.fields (email u)))
              = other_role (account_type u)"
    by (simp add: apply_partial_def Profile.extend_def)
  have calls1: "take 1 (calls (switchRole (s\<lparr>user := Some u\<rparr>) r g)) = [UpdateProfiles ?p (id' u)]"
    by (simp add: switchRole_def updateUser_def updateUser_on_first_call)
  have sw: "switchRole (s\<lparr>user := Some u\<rparr>) r g = updateUser (s\<lparr>user := Some u\<rparr>) ?p r g"
    by (simp add: switchRole_def)
  have none: "switchRole (s\<lparr>user := None\<rparr>) r g
                = \<lparr>state_after = s\<lparr>user := None\<rparr>, calls = [], outcome = Inr ()\<rparr>"
    by (simp add: switchRole_def)
  have r1: "map_option role (user ?st) = Some (other_role (role u))"
    by (simp only: st) (simp add: ro)
  have r2: "map_option account_type (user ?st) = Some (other_role (account_type u))"
    by (simp only: st) (simp add: ac)
  have r3: "(map_option role (user ?st) = map_option account_type (user ?st)) = (role u = account_type u)"
    by (simp only: r1 r2) (simp add: other_role_inj)
  show ?thesis
    using st r1 r2 r3 calls1 sw none other_role_flips [of "role u"] other_role_flips [of "account_type u"]
      other_role_inj [of "role u" "account_type u"]
    by blast
qed

end
